theory Spec2Isabelle
  imports Main "HOL-Library.Word" "HOL-Library.Sublist"
begin

section \<open>Go values used by package ksuidx\<close>

text \<open>
  A Go \<open>byte\<close> is an 8-bit word, a \<open>[]byte\<close> a list of bytes, and a Go \<open>string\<close> an
  immutable sequence of bytes whose \<open>len\<close> counts bytes: a \<open>char list\<close>, every \<open>char\<close>
  being one byte. The conversions \<open>[]byte(s)\<close> and \<open>string(b)\<close> copy the bytes unchanged.
\<close>

type_synonym byte = "8 word"

definition bytes_of_string :: "string \<Rightarrow> byte list" where
  "bytes_of_string s = map of_char s"

definition string_of_bytes :: "byte list \<Rightarrow> string" where
  "string_of_bytes b = map (\<lambda>w. char_of (unat w)) b"

text \<open>
  The builtin \<open>copy(dst, src)\<close>: the first \<open>min (len dst) (len src)\<close> elements of \<open>dst\<close>
  are overwritten, the others stay, and the length of \<open>dst\<close> never changes.
\<close>

definition go_copy :: "byte list \<Rightarrow> byte list \<Rightarrow> byte list" where
  "go_copy dst src = take (length dst) src @ drop (length src) dst"

text \<open>\<open>bytes.Equal\<close>: same length and same bytes (a nil slice is an empty slice).\<close>

definition bytes_Equal :: "byte list \<Rightarrow> byte list \<Rightarrow> bool" where
  "bytes_Equal a b \<longleftrightarrow> a = b"

subsection \<open>The constants of the package\<close>

definition byteLength :: nat where
  "byteLength = 23"

definition baseLength :: nat where
  "baseLength = 20"

definition nsLength :: nat where
  "nsLength = byteLength - baseLength"

definition stringEncodedLength :: nat where
  "stringEncodedLength = 30"

subsection \<open>Fixed-size arrays\<close>

text \<open>
  \<open>[3]byte\<close>, the underlying type of \<open>Namespace\<close> (\<open>type Namespace [nsLength]byte\<close>), and
  \<open>[20]byte\<close>, the underlying type of \<open>ksuid.KSUID\<close>, which the package slices as
  \<open>i.ksuid[:]\<close>. The zero value of an array type has every byte zero.
\<close>

typedef byte3 = "{bs :: byte list. length bs = 3}"
  by (rule exI [of _ "replicate 3 0"]) simp

typedef byte20 = "{bs :: byte list. length bs = 20}"
  by (rule exI [of _ "replicate 20 0"]) simp

type_synonym Namespace = byte3

type_synonym KSUID = byte20

definition Namespace_zero :: Namespace where
  "Namespace_zero = Abs_byte3 (replicate nsLength 0)"

definition KSUID_zero :: KSUID where
  "KSUID_zero = Abs_byte20 (replicate baseLength 0)"

text \<open>\<open>copy(a[:], src)\<close> into an array \<open>a\<close>, returning the array after the copy.\<close>

definition byte3_copy :: "byte3 \<Rightarrow> byte list \<Rightarrow> byte3" where
  "byte3_copy a src = Abs_byte3 (go_copy (Rep_byte3 a) src)"

definition byte20_copy :: "byte20 \<Rightarrow> byte list \<Rightarrow> byte20" where
  "byte20_copy a src = Abs_byte20 (go_copy (Rep_byte20 a) src)"

subsection \<open>Errors\<close>

text \<open>
  \<open>errNamespaceSize\<close> and \<open>errStringSize\<close> are the two package-level error values, each
  created once. An error of package \<open>ksuid\<close> or of \<open>encoding/json\<close> is returned as it
  is; it is a value of another package, named here by its message, and never one of the
  two above. A Go result \<open>(v, err)\<close> is a pair whose second component is \<open>None\<close> for a
  nil error.
\<close>

type_synonym foreign_error = string

datatype error =
    errNamespaceSize
  | errStringSize
  | ksuid_error foreign_error
  | json_error foreign_error

section \<open>Namespace\<close>

definition NewNamespace :: "string \<Rightarrow> Namespace \<times> error option" where
  "NewNamespace v =
     (let b = bytes_of_string v in
      if length b \<noteq> nsLength then (Namespace_zero, Some errNamespaceSize)
      else (byte3_copy Namespace_zero b, None))"

text \<open>\<open>MustNamespace\<close> panics where \<open>NewNamespace\<close> fails: \<open>None\<close> is the panic.\<close>

definition MustNamespace :: "string \<Rightarrow> Namespace option" where
  "MustNamespace v =
     (case NewNamespace v of
        (n, Some err) \<Rightarrow> None
      | (n, None) \<Rightarrow> Some n)"

definition Namespace_Append :: "Namespace \<Rightarrow> byte list \<Rightarrow> byte list" where
  "Namespace_Append n b = b @ Rep_byte3 n"

definition Namespace_raw :: "Namespace \<Rightarrow> byte list" where
  "Namespace_raw n = Rep_byte3 n"

definition Namespace_Bytes :: "Namespace \<Rightarrow> byte list" where
  "Namespace_Bytes n = Namespace_Append n []"

definition Namespace_String :: "Namespace \<Rightarrow> string" where
  "Namespace_String n = string_of_bytes (Namespace_Append n [])"

text \<open>
  The argument of \<open>Namespace.Equal\<close> is an \<open>interface{}\<close>: a value with its dynamic type.
  The type switch tells \<open>Namespace\<close>, \<open>[3]byte\<close>, \<open>[]byte\<close> and \<open>string\<close> apart; every
  other dynamic type (here an \<open>int\<close>, or a value of the type named) takes the default
  branch.
\<close>

datatype go_value =
    V_Namespace Namespace
  | V_byte3 byte3
  | V_bytes "byte list"
  | V_string string
  | V_int int
  | V_other string

fun Namespace_Equal :: "Namespace \<Rightarrow> go_value \<Rightarrow> bool" where
  "Namespace_Equal n (V_Namespace v) = bytes_Equal (Namespace_raw n) (Namespace_raw v)"
| "Namespace_Equal n (V_byte3 v) = bytes_Equal (Namespace_raw n) (Rep_byte3 v)"
| "Namespace_Equal n (V_bytes v) = bytes_Equal (Namespace_raw n) v"
| "Namespace_Equal n (V_string v) = bytes_Equal (Namespace_raw n) (bytes_of_string v)"
| "Namespace_Equal n _ = False"

text \<open>
  \<open>Unknown = MustNamespace("unk")\<close>, evaluated when the package is initialised
  (\<open>MustNamespace_unk\<close> below: the call does not panic).
\<close>

definition Unknown :: Namespace where
  "Unknown = (case MustNamespace ''unk'' of Some n \<Rightarrow> n | None \<Rightarrow> Namespace_zero)"

section \<open>The packages ksuidx builds on\<close>

text \<open>
  Package \<open>github.com/segmentio/ksuid\<close> is imported, not part of this repository. Its
  functions are parameters of the model: a record of the six that ksuidx calls. The
  time is a \<open>time.Time\<close> (type \<open>'t\<close>); \<open>ksuid.NewRandomWithTime\<close> reads the
  process-wide randomness source, whose state (type \<open>'r\<close>) it takes and returns.
  \<open>ksuid.Nil\<close> is the zero value of \<open>KSUID\<close>.
\<close>

record ('t, 'r) ksuid_pkg =
  ksuid_FromBytes :: "byte list \<Rightarrow> KSUID \<times> foreign_error option"
  ksuid_Parse :: "string \<Rightarrow> KSUID \<times> foreign_error option"
  ksuid_Append :: "KSUID \<Rightarrow> byte list \<Rightarrow> byte list"
  ksuid_NewRandomWithTime :: "'t \<Rightarrow> 'r \<Rightarrow> (KSUID \<times> foreign_error option) \<times> 'r"
  ksuid_IsNil :: "KSUID \<Rightarrow> bool"
  ksuid_Time :: "KSUID \<Rightarrow> 't"

definition ksuid_Nil :: KSUID where
  "ksuid_Nil = KSUID_zero"

text \<open>
  \<open>json.Unmarshal(b, &s)\<close> for a \<open>string\<close> variable \<open>s\<close> is a parameter too: from
  the input and the value of \<open>s\<close> before the call to the error and the value of \<open>s\<close>
  after it.
\<close>

type_synonym json_Unmarshal = "byte list \<Rightarrow> string \<Rightarrow> foreign_error option \<times> string"

section \<open>ID\<close>

record ID =
  ns :: Namespace
  ksuid :: KSUID

text \<open>The zero value \<open>ID{}\<close>.\<close>

definition ID_zero :: ID where
  "ID_zero = \<lparr>ns = Namespace_zero, ksuid = KSUID_zero\<rparr>"

definition Nil_ID :: ID where
  "Nil_ID = \<lparr>ns = Unknown, ksuid = ksuid_Nil\<rparr>"

text \<open>
  \<open>FromBytes\<close>: the named result \<open>id\<close> starts as the zero value; the namespace is
  copied into it from \<open>b[0:nsLength]\<close>.
\<close>

definition FromBytes ::
  "('t, 'r) ksuid_pkg \<Rightarrow> byte list \<Rightarrow> ID \<times> error option" where
  "FromBytes L b =
     (if length b = byteLength then
        (case ksuid_FromBytes L (drop nsLength b) of
           (v, Some err) \<Rightarrow> (ID_zero, Some (ksuid_error err))
         | (v, None) \<Rightarrow>
             (ID_zero\<lparr>ns := byte3_copy (ns ID_zero) (take nsLength b), ksuid := v\<rparr>, None))
      else
        (case ksuid_FromBytes L b of
           (v, Some err) \<Rightarrow> (ID_zero, Some (ksuid_error err))
         | (v, None) \<Rightarrow> (ID_zero\<lparr>ns := Unknown, ksuid := v\<rparr>, None)))"

definition Parse ::
  "('t, 'r) ksuid_pkg \<Rightarrow> string \<Rightarrow> ID \<times> error option" where
  "Parse L s =
     (if length s = stringEncodedLength - nsLength then
        (case ksuid_Parse L s of
           (v, Some err) \<Rightarrow> (ID_zero, Some (ksuid_error err))
         | (v, None) \<Rightarrow> (\<lparr>ns = Unknown, ksuid = v\<rparr>, None))
      else if length s \<noteq> stringEncodedLength then (ID_zero, Some errStringSize)
      else
        (case NewNamespace (take nsLength s) of
           (n, Some err) \<Rightarrow> (ID_zero, Some err)
         | (n, None) \<Rightarrow>
             (case ksuid_Parse L (drop nsLength s) of
                (v, Some err) \<Rightarrow> (ID_zero, Some (ksuid_error err))
              | (v, None) \<Rightarrow> (ID_zero\<lparr>ns := n, ksuid := v\<rparr>, None))))"

definition NewRandomWithTime ::
  "('t, 'r) ksuid_pkg \<Rightarrow> Namespace \<Rightarrow> 't \<Rightarrow> 'r \<Rightarrow> (ID \<times> error option) \<times> 'r" where
  "NewRandomWithTime L n t r =
     (case ksuid_NewRandomWithTime L t r of
        ((v, Some err), r') \<Rightarrow> ((ID_zero, Some (ksuid_error err)), r')
      | ((v, None), r') \<Rightarrow> ((ID_zero\<lparr>ns := n, ksuid := v\<rparr>, None), r'))"

text \<open>\<open>NewRandom\<close> reads the clock: \<open>now\<close> is the value of \<open>time.Now()\<close>.\<close>

definition NewRandom ::
  "('t, 'r) ksuid_pkg \<Rightarrow> 't \<Rightarrow> Namespace \<Rightarrow> 'r \<Rightarrow> (ID \<times> error option) \<times> 'r" where
  "NewRandom L now n r = NewRandomWithTime L n now r"

text \<open>\<open>New\<close> panics where \<open>NewRandom\<close> fails: \<open>None\<close> is the panic.\<close>

definition New :: "('t, 'r) ksuid_pkg \<Rightarrow> 't \<Rightarrow> Namespace \<Rightarrow> 'r \<Rightarrow> ID option \<times> 'r" where
  "New L now n r =
     (case NewRandom L now n r of
        ((i, Some err), r') \<Rightarrow> (None, r')
      | ((i, None), r') \<Rightarrow> (Some i, r'))"

definition ID_Append :: "('t, 'r) ksuid_pkg \<Rightarrow> ID \<Rightarrow> byte list \<Rightarrow> byte list" where
  "ID_Append L i b = ksuid_Append L (ksuid i) (b @ Rep_byte3 (ns i))"

definition ID_Bytes :: "ID \<Rightarrow> byte list" where
  "ID_Bytes i = Namespace_Append (ns i) [] @ Rep_byte20 (ksuid i)"

definition ID_Equal :: "ID \<Rightarrow> ID \<Rightarrow> bool" where
  "ID_Equal i that \<longleftrightarrow>
     Namespace_Equal (ns i) (V_Namespace (ns that))
     \<and> bytes_Equal (Rep_byte20 (ksuid i)) (Rep_byte20 (ksuid that))"

definition ID_IsNil :: "('t, 'r) ksuid_pkg \<Rightarrow> ID \<Rightarrow> bool" where
  "ID_IsNil L i \<longleftrightarrow> Namespace_Equal (ns i) (V_Namespace Unknown) \<and> ksuid_IsNil L (ksuid i)"

definition ID_MarshalJSON :: "('t, 'r) ksuid_pkg \<Rightarrow> ID \<Rightarrow> byte list \<times> error option" where
  "ID_MarshalJSON L i = (ID_Append L i ([] @ [0x22]) @ [0x22], None)"

definition ID_KSUID :: "ID \<Rightarrow> KSUID" where
  "ID_KSUID i = ksuid i"

definition ID_Namespace :: "ID \<Rightarrow> Namespace" where
  "ID_Namespace i = ns i"

definition ID_String :: "('t, 'r) ksuid_pkg \<Rightarrow> ID \<Rightarrow> string" where
  "ID_String L i = string_of_bytes (ID_Append L i [])"

definition ID_Time :: "('t, 'r) ksuid_pkg \<Rightarrow> ID \<Rightarrow> 't" where
  "ID_Time L i = ksuid_Time L (ksuid i)"

text \<open>
  \<open>UnmarshalJSON\<close> has a pointer receiver: the model takes the value \<open>*i\<close> before the
  call and returns the value after it with the error. The local \<open>s\<close> starts empty.
\<close>

definition ID_UnmarshalJSON ::
  "json_Unmarshal \<Rightarrow> ('t, 'r) ksuid_pkg \<Rightarrow> ID \<Rightarrow> byte list \<Rightarrow> ID \<times> error option" where
  "ID_UnmarshalJSON J L i b =
     (case J b [] of
        (Some err, s) \<Rightarrow> (i, Some (json_error err))
      | (None, s) \<Rightarrow>
          if s = [] then (Nil_ID, None)
          else
            (case Parse L s of
               (v, Some err) \<Rightarrow> (i, Some err)
             | (v, None) \<Rightarrow> (v, None)))"

section \<open>A reference instance of the imported packages\<close>

text \<open>
  Modelled from the spec: the opaque time-ordered random identifier primitive (package
  \<open>github.com/segmentio/ksuid\<close>), which is missing from the sources. It follows the
  spec's words: an identifier is a 4-byte big-endian timestamp, in seconds since a custom
  epoch, followed by a 16-byte random payload; the binary decoder takes exactly 20 bytes;
  the string codec is the fixed-length base-62 encoding of the 20 bytes in 27
  characters; the appended encoding is that 27-character text, since \<open>ID.String\<close> is
  \<open>string(i.Append(b))\<close>. The randomness source is the list of bytes it will deliver,
  the time a number of seconds since the Unix epoch.
  The theorems below hold for every package; this instance serves to evaluate them at
  concrete inputs.
\<close>

definition errSize :: foreign_error where
  "errSize = ''ksuid: not 20 bytes''"

definition errStrSize :: foreign_error where
  "errStrSize = ''ksuid: not 27 characters''"

definition errStrValue :: foreign_error where
  "errStrValue = ''ksuid: not a base62 value of 20 bytes''"

definition errShortRead :: foreign_error where
  "errShortRead = ''ksuid: randomness source exhausted''"

definition epochStamp :: int where
  "epochStamp = 1400000000"

definition base62Value :: "byte \<Rightarrow> nat option" where
  "base62Value c =
     (let d = unat c in
      if 48 \<le> d \<and> d \<le> 57 then Some (d - 48)
      else if 65 \<le> d \<and> d \<le> 90 then Some (10 + (d - 65))
      else if 97 \<le> d \<and> d \<le> 122 then Some (36 + (d - 97))
      else None)"

definition base62Char :: "nat \<Rightarrow> byte" where
  "base62Char d =
     (if d < 10 then of_nat (48 + d)
      else if d < 36 then of_nat (65 + (d - 10))
      else of_nat (97 + (d - 36)))"

definition nat_of_bytes :: "byte list \<Rightarrow> nat" where
  "nat_of_bytes bs = foldl (\<lambda>a b. 256 * a + unat b) 0 bs"

text \<open>The \<open>k\<close> low digits of \<open>n\<close> in the given base, most significant first.\<close>

fun digits_be :: "nat \<Rightarrow> nat \<Rightarrow> nat \<Rightarrow> nat list" where
  "digits_be base k n =
     (if k = 0 then [] else digits_be base (k - 1) (n div base) @ [n mod base])"

declare digits_be.simps [simp del]

definition bytes_of_nat :: "nat \<Rightarrow> nat \<Rightarrow> byte list" where
  "bytes_of_nat k n = map of_nat (digits_be 256 k n)"

definition base62_encode :: "byte list \<Rightarrow> byte list" where
  "base62_encode bs = map base62Char (digits_be 62 27 (nat_of_bytes bs))"

definition base62_decode :: "byte list \<Rightarrow> byte list option" where
  "base62_decode s =
     (if list_all (\<lambda>c. base62Value c \<noteq> None) s then
        (let n = foldl (\<lambda>a c. 62 * a + the (base62Value c)) 0 s in
         if n < 2 ^ 160 then Some (bytes_of_nat 20 n) else None)
      else None)"

definition ref_FromBytes :: "byte list \<Rightarrow> KSUID \<times> foreign_error option" where
  "ref_FromBytes b =
     (if length b \<noteq> 20 then (ksuid_Nil, Some errSize)
      else (byte20_copy KSUID_zero b, None))"

definition ref_Parse :: "string \<Rightarrow> KSUID \<times> foreign_error option" where
  "ref_Parse s =
     (if length s \<noteq> 27 then (ksuid_Nil, Some errStrSize)
      else
        (case base62_decode (bytes_of_string s) of
           None \<Rightarrow> (ksuid_Nil, Some errStrValue)
         | Some b \<Rightarrow> ref_FromBytes b))"

definition ref_Append :: "KSUID \<Rightarrow> byte list \<Rightarrow> byte list" where
  "ref_Append k b = b @ base62_encode (Rep_byte20 k)"

definition ref_NewRandomWithTime ::
  "int \<Rightarrow> byte list \<Rightarrow> (KSUID \<times> foreign_error option) \<times> byte list" where
  "ref_NewRandomWithTime t r =
     (if length r < 16 then ((ksuid_Nil, Some errShortRead), [])
      else
        ((byte20_copy KSUID_zero
            (bytes_of_nat 4 (nat ((t - epochStamp) mod 2 ^ 32)) @ take 16 r), None),
         drop 16 r))"

definition ref_IsNil :: "KSUID \<Rightarrow> bool" where
  "ref_IsNil k \<longleftrightarrow> k = ksuid_Nil"

definition ref_Time :: "KSUID \<Rightarrow> int" where
  "ref_Time k = epochStamp + int (nat_of_bytes (take 4 (Rep_byte20 k)))"

definition ref_ksuid :: "(int, byte list) ksuid_pkg" where
  "ref_ksuid =
     \<lparr>ksuid_FromBytes = ref_FromBytes,
      ksuid_Parse = ref_Parse,
      ksuid_Append = ref_Append,
      ksuid_NewRandomWithTime = ref_NewRandomWithTime,
      ksuid_IsNil = ref_IsNil,
      ksuid_Time = ref_Time\<rparr>"

text \<open>
  Modelled from the spec: \<open>json.Unmarshal\<close> into a string (package \<open>encoding/json\<close> of
  the Go library, missing from the sources), on the fragment the spec names: the token
  \<open>null\<close>, which has no effect on the variable and is no error, and a string literal of
  printable ASCII characters without escape sequences, which is stored. Every other
  input is answered with an error and leaves the variable as it was, as malformed JSON
  does.
\<close>

definition json_SyntaxError :: foreign_error where
  "json_SyntaxError = ''json: syntax error''"

definition json_plain :: "byte \<Rightarrow> bool" where
  "json_plain c \<longleftrightarrow> 0x20 \<le> c \<and> c < 0x7F \<and> c \<noteq> 0x22 \<and> c \<noteq> 0x5C"

definition ref_json_Unmarshal :: "json_Unmarshal" where
  "ref_json_Unmarshal b s =
     (if b = bytes_of_string ''null'' then (None, s)
      else
        (case b of
           [] \<Rightarrow> (Some json_SyntaxError, s)
         | q # rest \<Rightarrow>
             if q = 0x22 \<and> rest \<noteq> [] \<and> last rest = 0x22
                \<and> list_all json_plain (butlast rest)
             then (None, string_of_bytes (butlast rest))
             else (Some json_SyntaxError, s)))"

subsection \<open>Sample values\<close>

text \<open>
  The namespace \<open>bla\<close>; the KSUID of the time 1700000000 (300000000 seconds after the
  epoch, \<open>0x11E1A300\<close>) with the payload 1 to 16, its raw bytes and its text; the \<open>ID\<close>
  of both.
\<close>

definition bla :: Namespace where
  "bla = byte3_copy Namespace_zero (bytes_of_string ''bla'')"

definition sample_raw :: "byte list" where
  "sample_raw =
     [0x11, 0xE1, 0xA3, 0x00, 1, 2, 3, 4, 5, 6, 7, 8, 9, 10, 11, 12, 13, 14, 15, 16]"

definition sample_text :: string where
  "sample_text = ''2YBXZHs6BlGX8pWZXyp2K5Eb2GG''"

definition sample_KSUID :: KSUID where
  "sample_KSUID = byte20_copy KSUID_zero sample_raw"

definition sample_ID :: ID where
  "sample_ID = \<lparr>ns = bla, ksuid = sample_KSUID\<rparr>"

section \<open>Basic facts\<close>

lemma unat_of_char: "unat (of_char c :: byte) = of_char c"
proof -
  have "(of_char c :: byte) = of_nat (of_char c)"
    by (simp only: of_nat_of_char)
  moreover have "(of_char c :: nat) < 256"
    by (rule nat_of_char_less_256)
  ultimately show ?thesis
    by (simp add: unat_of_nat del: of_nat_of_char)
qed

lemma of_char_char_of_unat: "of_char (char_of (unat (w :: byte))) = w"
proof -
  have less: "unat w < 256"
    using unsigned_less [of w, where 'a = nat] by simp
  have "(of_char (char_of (unat w)) :: byte) = of_nat (of_char (char_of (unat w)))"
    by (simp only: of_nat_of_char)
  also have "\<dots> = of_nat (unat w mod 256)"
    by (simp only: of_char_of)
  also have "\<dots> = w"
    using less by simp
  finally show ?thesis .
qed

lemma string_of_bytes_of_string [simp]: "string_of_bytes (bytes_of_string s) = s"
  by (induction s) (simp_all add: string_of_bytes_def bytes_of_string_def unat_of_char)

lemma bytes_of_string_of_bytes [simp]: "bytes_of_string (string_of_bytes b) = b"
  by (induction b) (simp_all add: string_of_bytes_def bytes_of_string_def of_char_char_of_unat)

lemma length_bytes_of_string [simp]: "length (bytes_of_string s) = length s"
  by (simp add: bytes_of_string_def)

lemma length_string_of_bytes [simp]: "length (string_of_bytes b) = length b"
  by (simp add: string_of_bytes_def)

lemma string_of_bytes_append: "string_of_bytes (a @ b) = string_of_bytes a @ string_of_bytes b"
  by (simp add: string_of_bytes_def)

lemma string_of_bytes_take: "take k (string_of_bytes b) = string_of_bytes (take k b)"
  by (simp add: string_of_bytes_def take_map)

lemma string_of_bytes_Nil [simp]: "string_of_bytes [] = []"
  by (simp add: string_of_bytes_def)

lemma string_of_bytes_Cons:
  "string_of_bytes (w # ws) = char_of (unat w) # string_of_bytes ws"
  by (simp add: string_of_bytes_def)

lemmas string_of_bytes_eval = string_of_bytes_Cons char_of_def bit_Suc_0_iff

lemma string_of_bytes_unk: "string_of_bytes [0x75, 0x6E, 0x6B] = ''unk''"
proof -
  have "bytes_of_string ''unk'' = [0x75, 0x6E, 0x6B]"
    by (simp add: bytes_of_string_def)
  then show ?thesis
    by (metis string_of_bytes_of_string)
qed

lemma length_go_copy [simp]: "length (go_copy dst src) = length dst"
  by (simp add: go_copy_def)

lemma go_copy_same_length: "length src = length dst \<Longrightarrow> go_copy dst src = src"
  by (simp add: go_copy_def)

lemma nsLength_eq [simp]: "nsLength = 3"
  by (simp add: nsLength_def byteLength_def baseLength_def)

lemma lengths [simp]: "byteLength = 23" "stringEncodedLength = 30" "baseLength = 20"
  by (simp_all add: byteLength_def stringEncodedLength_def baseLength_def)

lemma length_Rep_byte3 [simp]: "length (Rep_byte3 a) = 3"
  using Rep_byte3 [of a] by simp

lemma length_Rep_byte20 [simp]: "length (Rep_byte20 a) = 20"
  using Rep_byte20 [of a] by simp

lemma Rep_byte3_copy [simp]: "Rep_byte3 (byte3_copy a src) = go_copy (Rep_byte3 a) src"
  unfolding byte3_copy_def by (rule Abs_byte3_inverse) simp

lemma Rep_byte20_copy [simp]: "Rep_byte20 (byte20_copy a src) = go_copy (Rep_byte20 a) src"
  unfolding byte20_copy_def by (rule Abs_byte20_inverse) simp

lemma Rep_Namespace_zero [simp]: "Rep_byte3 Namespace_zero = [0, 0, 0]"
  unfolding Namespace_zero_def by (subst Abs_byte3_inverse) (simp_all add: numeral_3_eq_3)

lemma Rep_KSUID_zero [simp]: "Rep_byte20 KSUID_zero = replicate 20 0"
  unfolding KSUID_zero_def by (subst Abs_byte20_inverse) (simp_all add: baseLength_def)

lemma byte3_eq_iff: "a = b \<longleftrightarrow> Rep_byte3 a = Rep_byte3 b"
  by (simp add: Rep_byte3_inject)

lemma byte3_copy_Rep [simp]: "byte3_copy a (Rep_byte3 n) = n"
  by (simp add: byte3_eq_iff go_copy_same_length)

lemma ns_ID_zero [simp]: "ns ID_zero = Namespace_zero" "ksuid ID_zero = KSUID_zero"
  by (simp_all add: ID_zero_def)

lemma Nil_ID_sel [simp]: "ns Nil_ID = Unknown" "ksuid Nil_ID = KSUID_zero"
  by (simp_all add: Nil_ID_def ksuid_Nil_def)

section \<open>Namespace: construction and views\<close>

lemma NewNamespace_ok:
  "length v = 3 \<Longrightarrow>
     NewNamespace v = (byte3_copy Namespace_zero (bytes_of_string v), None)"
  by (simp add: NewNamespace_def)

lemma NewNamespace_bad:
  "length v \<noteq> 3 \<Longrightarrow> NewNamespace v = (Namespace_zero, Some errNamespaceSize)"
  by (simp add: NewNamespace_def)

lemma Namespace_Bytes_Rep [simp]: "Namespace_Bytes n = Rep_byte3 n"
  by (simp add: Namespace_Bytes_def Namespace_Append_def)

lemma Namespace_String_Rep: "Namespace_String n = string_of_bytes (Rep_byte3 n)"
  by (simp add: Namespace_String_def Namespace_Append_def)

lemma MustNamespace_unk: "MustNamespace ''unk'' = Some Unknown"
  by (simp add: Unknown_def MustNamespace_def NewNamespace_def)

lemma Rep_Unknown [simp]: "Rep_byte3 Unknown = [0x75, 0x6E, 0x6B]"
  by (simp add: Unknown_def MustNamespace_def NewNamespace_def go_copy_def bytes_of_string_def)

lemma Unknown_neq_zero: "Unknown \<noteq> Namespace_zero"
  by (simp add: byte3_eq_iff)

lemma Nil_ID_neq_zero: "Nil_ID \<noteq> ID_zero"
  using Unknown_neq_zero by (auto simp: Nil_ID_def ID_zero_def)

section \<open>The decoders, branch by branch\<close>

lemma Parse_bad_length:
  "length s \<noteq> 27 \<Longrightarrow> length s \<noteq> 30 \<Longrightarrow> Parse L s = (ID_zero, Some errStringSize)"
  by (simp add: Parse_def)

lemma Parse_27:
  "length s = 27 \<Longrightarrow>
     Parse L s =
       (case ksuid_Parse L s of
          (v, Some err) \<Rightarrow> (ID_zero, Some (ksuid_error err))
        | (v, None) \<Rightarrow> (\<lparr>ns = Unknown, ksuid = v\<rparr>, None))"
  by (simp add: Parse_def)

lemma Parse_30:
  "length s = 30 \<Longrightarrow>
     Parse L s =
       (case ksuid_Parse L (drop 3 s) of
          (v, Some err) \<Rightarrow> (ID_zero, Some (ksuid_error err))
        | (v, None) \<Rightarrow>
            (\<lparr>ns = byte3_copy Namespace_zero (bytes_of_string (take 3 s)), ksuid = v\<rparr>, None))"
  by (simp add: Parse_def NewNamespace_def ID_zero_def split: prod.splits option.splits)

lemma Parse_ok_length:
  assumes "snd (Parse L s) = None"
  shows "length s = 27 \<or> length s = 30"
proof (rule ccontr)
  assume "\<not> (length s = 27 \<or> length s = 30)"
  then have "Parse L s = (ID_zero, Some errStringSize)"
    by (simp add: Parse_bad_length)
  with assms show False by simp
qed

lemma FromBytes_23:
  "length b = 23 \<Longrightarrow>
     FromBytes L b =
       (case ksuid_FromBytes L (drop 3 b) of
          (v, Some err) \<Rightarrow> (ID_zero, Some (ksuid_error err))
        | (v, None) \<Rightarrow> (\<lparr>ns = byte3_copy Namespace_zero (take 3 b), ksuid = v\<rparr>, None))"
  by (simp add: FromBytes_def ID_zero_def split: prod.splits option.splits)

lemma FromBytes_other:
  "length b \<noteq> 23 \<Longrightarrow>
     FromBytes L b =
       (case ksuid_FromBytes L b of
          (v, Some err) \<Rightarrow> (ID_zero, Some (ksuid_error err))
        | (v, None) \<Rightarrow> (\<lparr>ns = Unknown, ksuid = v\<rparr>, None))"
  by (simp add: FromBytes_def ID_zero_def split: prod.splits option.splits)

lemma UnmarshalJSON_empty:
  "J b [] = (None, []) \<Longrightarrow> ID_UnmarshalJSON J L i b = (Nil_ID, None)"
  by (simp add: ID_UnmarshalJSON_def)

section \<open>The encoders\<close>

lemma ID_Bytes_eq: "ID_Bytes i = Rep_byte3 (ns i) @ Rep_byte20 (ksuid i)"
  by (simp add: ID_Bytes_def Namespace_Append_def)

lemma length_ID_Bytes: "length (ID_Bytes i) = 23"
  by (simp add: ID_Bytes_eq)

lemma ID_Append_Nil: "ID_Append L i [] = ksuid_Append L (ksuid i) (Rep_byte3 (ns i))"
  by (simp add: ID_Append_def)

lemma take3_prefix:
  assumes "prefix (Rep_byte3 n) xs"
  shows "take 3 xs = Rep_byte3 n"
proof -
  from assms obtain ys where "xs = Rep_byte3 n @ ys"
    by (auto simp: prefix_def)
  then show ?thesis by simp
qed

lemma ID_String_Unknown:
  assumes "ns i = Unknown"
    and "prefix (Namespace_Bytes (ns i)) (ksuid_Append L (ksuid i) (Namespace_Bytes (ns i)))"
  shows "take 3 (ID_String L i) = ''unk''"
proof -
  have "take 3 (ksuid_Append L (ksuid i) (Rep_byte3 (ns i))) = Rep_byte3 (ns i)"
    using assms(2) by (simp add: take3_prefix)
  then show ?thesis
    by (simp add: ID_String_def ID_Append_def string_of_bytes_take assms(1) string_of_bytes_unk)
qed

lemma ID_Equal_refl: "ID_Equal i i"
  by (simp add: ID_Equal_def bytes_Equal_def Namespace_raw_def)

lemma NewRandomWithTime_ns:
  "NewRandomWithTime L n t r = ((i, None), r') \<Longrightarrow> ns i = n"
  by (auto simp: NewRandomWithTime_def split: prod.splits option.splits)

text \<open>
  Both decoders invert both encoders at every \<open>ID\<close> at which package \<open>ksuid\<close> keeps its
  codec contract.
\<close>

lemma codec_roundtrip:
  assumes app: "ksuid_Append L (ksuid i) (Rep_byte3 (ns i)) = Rep_byte3 (ns i) @ enc"
    and len: "length enc = 27"
    and dec: "ksuid_Parse L (string_of_bytes enc) = (ksuid i, None)"
    and bin: "ksuid_FromBytes L (Rep_byte20 (ksuid i)) = (ksuid i, None)"
  shows "Parse L (ID_String L i) = (i, None)" and "FromBytes L (ID_Bytes i) = (i, None)"
proof -
  have str: "ID_String L i = string_of_bytes (Rep_byte3 (ns i) @ enc)"
    using app by (simp add: ID_String_def ID_Append_def)
  have "length (ID_String L i) = 30"
    by (simp add: str len)
  then show "Parse L (ID_String L i) = (i, None)"
    by (simp add: Parse_30 str string_of_bytes_append dec)
  have "length (ID_Bytes i) = 23"
    by (rule length_ID_Bytes)
  then show "FromBytes L (ID_Bytes i) = (i, None)"
    by (simp add: FromBytes_23 ID_Bytes_eq bin)
qed

section \<open>The reference instance at concrete inputs\<close>

lemma ref_ksuid_sel [simp]:
  "ksuid_FromBytes ref_ksuid = ref_FromBytes"
  "ksuid_Parse ref_ksuid = ref_Parse"
  "ksuid_Append ref_ksuid = ref_Append"
  "ksuid_NewRandomWithTime ref_ksuid = ref_NewRandomWithTime"
  "ksuid_IsNil ref_ksuid = ref_IsNil"
  "ksuid_Time ref_ksuid = ref_Time"
  by (simp_all add: ref_ksuid_def)

lemma length_digits_be [simp]: "length (digits_be base k n) = k"
  by (induction base k n rule: digits_be.induct) (subst digits_be.simps, simp)

lemma length_base62_encode [simp]: "length (base62_encode bs) = 27"
  by (simp add: base62_encode_def)

lemma ref_json_null: "ref_json_Unmarshal (bytes_of_string ''null'') s = (None, s)"
  by (simp add: ref_json_Unmarshal_def)

lemma ref_json_empty: "ref_json_Unmarshal [0x22, 0x22] [] = (None, [])"
  by (simp add: ref_json_Unmarshal_def bytes_of_string_def string_of_bytes_def)

lemma ref_json_unterminated:
  "ref_json_Unmarshal (0x22 # bytes_of_string ''bad-json'') [] = (Some json_SyntaxError, [])"
  by (simp add: ref_json_Unmarshal_def bytes_of_string_def json_plain_def)

lemma ref_json_literal:
  "ref_json_Unmarshal (0x22 # bytes_of_string ''invalid-ksuid'' @ [0x22]) [] = (None, ''invalid-ksuid'')"
proof -
  have "list_all json_plain (bytes_of_string ''invalid-ksuid'')"
    by (simp add: bytes_of_string_def json_plain_def)
  moreover have "0x22 # bytes_of_string ''invalid-ksuid'' @ [0x22] \<noteq> bytes_of_string ''null''"
    by (simp add: bytes_of_string_def)
  ultimately show ?thesis
    by (simp add: ref_json_Unmarshal_def)
qed

lemma Rep_bla [simp]: "Rep_byte3 bla = [0x62, 0x6C, 0x61]"
  by (simp add: bla_def go_copy_def bytes_of_string_def)

lemma length_sample_raw [simp]: "length sample_raw = 20"
  by (simp add: sample_raw_def)

lemma Rep_sample_KSUID [simp]: "Rep_byte20 sample_KSUID = sample_raw"
  by (simp add: sample_KSUID_def go_copy_same_length)

lemma sample_ID_sel [simp]: "ns sample_ID = bla" "ksuid sample_ID = sample_KSUID"
  by (simp_all add: sample_ID_def)

lemma ref_mint:
  "ref_NewRandomWithTime 1700000000 [1, 2, 3, 4, 5, 6, 7, 8, 9, 10, 11, 12, 13, 14, 15, 16, 17]
   = ((sample_KSUID, None), [17])"
  by (simp add: ref_NewRandomWithTime_def epochStamp_def bytes_of_nat_def digits_be.simps
      sample_KSUID_def sample_raw_def)

lemma encode_sample: "base62_encode sample_raw = bytes_of_string sample_text"
  by (simp add: base62_encode_def nat_of_bytes_def digits_be.simps base62Char_def
      bytes_of_string_def sample_raw_def sample_text_def)

lemma decode_sample: "base62_decode (bytes_of_string sample_text) = Some sample_raw"
  by (simp add: base62_decode_def base62Value_def bytes_of_nat_def digits_be.simps
      bytes_of_string_def sample_raw_def sample_text_def)

lemma decode_over_max:
  "base62_decode (bytes_of_string ''aWgEPTl1tmebfsQzFP4bxwgy80W'') = None"
  by (simp add: base62_decode_def base62Value_def bytes_of_string_def)

lemma length_sample_text [simp]: "length sample_text = 27"
  by (simp add: sample_text_def)

lemma ref_FromBytes_sample: "ref_FromBytes sample_raw = (sample_KSUID, None)"
  by (simp add: ref_FromBytes_def sample_KSUID_def)

lemma ref_Parse_sample: "ref_Parse sample_text = (sample_KSUID, None)"
  by (simp add: ref_Parse_def decode_sample ref_FromBytes_sample)

lemma ref_Parse_over_max:
  "ref_Parse ''aWgEPTl1tmebfsQzFP4bxwgy80W'' = (ksuid_Nil, Some errStrValue)"
  by (simp add: ref_Parse_def decode_over_max)

lemma ref_Append_sample: "ref_Append sample_KSUID b = b @ bytes_of_string sample_text"
  by (simp add: ref_Append_def encode_sample)

lemma ID_String_sample: "ID_String ref_ksuid sample_ID = ''bla'' @ sample_text"
  by (simp add: ID_String_def ID_Append_def ref_Append_sample string_of_bytes_eval)

lemma Parse_sample_ID: "Parse ref_ksuid (''bla'' @ sample_text) = (sample_ID, None)"
proof -
  have "length (''bla'' @ sample_text) = 30"
    by simp
  then have "Parse ref_ksuid (''bla'' @ sample_text) =
      (case ksuid_Parse ref_ksuid (drop 3 (''bla'' @ sample_text)) of
          (v, Some err) \<Rightarrow> (ID_zero, Some (ksuid_error err))
        | (v, None) \<Rightarrow>
            (\<lparr>ns = byte3_copy Namespace_zero (bytes_of_string (take 3 (''bla'' @ sample_text))),
              ksuid = v\<rparr>, None))"
    by (rule Parse_30)
  also have "drop 3 (''bla'' @ sample_text) = sample_text"
    by simp
  also have "take 3 (''bla'' @ sample_text) = ''bla''"
    by simp
  finally show ?thesis
    by (simp add: ref_Parse_sample sample_ID_def bla_def)
qed

section \<open>The reference instance keeps the codec contract\<close>

lemma digits_be_0 [simp]: "digits_be base 0 n = []"
  by (simp add: digits_be.simps)

lemma digits_be_Suc:
  "digits_be base (Suc k) n = digits_be base k (n div base) @ [n mod base]"
  by (subst digits_be.simps) simp

lemma digits_be_less:
  assumes "0 < base"
  shows "\<forall>d \<in> set (digits_be base k n). d < base"
  using assms by (induction k arbitrary: n) (auto simp: digits_be_Suc)

lemma foldl_digits_be:
  assumes "n < base ^ k"
  shows "foldl (\<lambda>a d. base * a + d) 0 (digits_be base k n) = n"
  using assms
proof (induction k arbitrary: n)
  case 0
  then show ?case by simp
next
  case (Suc k)
  from Suc.prems have "n div base < base ^ k"
    by (simp add: less_mult_imp_div_less mult.commute)
  then have "foldl (\<lambda>a d. base * a + d) 0 (digits_be base k (n div base)) = n div base"
    by (rule Suc.IH)
  then show ?case
    by (simp add: digits_be_Suc)
qed

lemma digits_be_foldl:
  assumes "\<forall>d \<in> set ds. d < base"
  shows "digits_be base (length ds) (foldl (\<lambda>a d. base * a + d) 0 ds) = ds"
  using assms
proof (induction ds rule: rev_induct)
  case Nil
  then show ?case by simp
next
  case (snoc d ds)
  then have "d < base" and "digits_be base (length ds) (foldl (\<lambda>a d. base * a + d) 0 ds) = ds"
    by simp_all
  then show ?case
    by (simp add: digits_be_Suc)
qed

lemma nat_of_bytes_map: "nat_of_bytes bs = foldl (\<lambda>a d. 256 * a + d) 0 (map unat bs)"
  by (simp add: nat_of_bytes_def foldl_map)

lemma unat_byte_less: "unat (b :: byte) < 256"
  using unsigned_less [of b, where 'a = nat] by simp

lemma nat_of_bytes_less: "nat_of_bytes bs < 256 ^ length bs"
proof (induction bs rule: rev_induct)
  case Nil
  then show ?case by (simp add: nat_of_bytes_def)
next
  case (snoc b bs)
  have "nat_of_bytes (bs @ [b]) = 256 * nat_of_bytes bs + unat b"
    by (simp add: nat_of_bytes_def)
  also have "\<dots> < 256 * nat_of_bytes bs + 256"
    using unat_byte_less [of b] by simp
  also have "\<dots> = 256 * (nat_of_bytes bs + 1)"
    by simp
  also have "\<dots> \<le> 256 * 256 ^ length bs"
    using snoc.IH by (simp del: mult_Suc_right)
  finally show ?case by simp
qed

lemma bytes_of_nat_of_bytes: "bytes_of_nat (length bs) (nat_of_bytes bs) = bs"
proof -
  have "\<forall>d \<in> set (map unat bs). d < 256"
    using unat_byte_less by auto
  then have "digits_be 256 (length (map unat bs)) (nat_of_bytes bs) = map unat bs"
    unfolding nat_of_bytes_map by (rule digits_be_foldl)
  then show ?thesis
    by (simp add: bytes_of_nat_def comp_def map_idI)
qed

lemma base62Value_Char:
  assumes "d < 62"
  shows "base62Value (base62Char d) = Some d"
proof -
  have u: "\<And>m. m < 256 \<Longrightarrow> unat (of_nat m :: byte) = m"
    by (simp add: unat_of_nat)
  consider "d < 10" | "10 \<le> d" "d < 36" | "36 \<le> d"
    by linarith
  then show ?thesis
  proof cases
    case 1
    then have "unat (base62Char d) = 48 + d"
      using u [of "48 + d"] by (simp add: base62Char_def)
    with 1 show ?thesis by (simp add: base62Value_def)
  next
    case 2
    then have "unat (base62Char d) = 65 + (d - 10)"
      using u [of "65 + (d - 10)"] by (simp add: base62Char_def)
    with 2 show ?thesis by (simp add: base62Value_def)
  next
    case 3
    with assms have "unat (base62Char d) = 97 + (d - 36)"
      using u [of "97 + (d - 36)"] by (simp add: base62Char_def)
    with 3 assms show ?thesis by (simp add: base62Value_def)
  qed
qed

lemma base62_decode_encode:
  assumes "length bs = 20"
  shows "base62_decode (base62_encode bs) = Some bs"
proof -
  let ?n = "nat_of_bytes bs"
  let ?ds = "digits_be 62 27 ?n"
  have lt: "\<forall>d \<in> set ?ds. d < 62"
    by (rule digits_be_less) simp
  have n160: "?n < 2 ^ 160"
    using nat_of_bytes_less [of bs] assms by simp
  then have "?n < 62 ^ 27"
    by simp
  then have val: "foldl (\<lambda>a d. 62 * a + d) 0 ?ds = ?n"
    by (rule foldl_digits_be)
  have all: "list_all (\<lambda>c. base62Value c \<noteq> None) (base62_encode bs)"
    using lt by (auto simp: base62_encode_def list_all_iff base62Value_Char)
  have "foldl (\<lambda>a c. 62 * a + the (base62Value c)) 0 (base62_encode bs)
      = foldl (\<lambda>a d. 62 * a + the (base62Value (base62Char d))) 0 ?ds"
    by (simp add: base62_encode_def foldl_map)
  also have "\<dots> = foldl (\<lambda>a d. 62 * a + d) 0 ?ds"
    using lt by (intro foldl_cong) (simp_all add: base62Value_Char)
  finally have "foldl (\<lambda>a c. 62 * a + the (base62Value c)) 0 (base62_encode bs) = ?n"
    using val by simp
  with all n160 have "base62_decode (base62_encode bs) = Some (bytes_of_nat 20 ?n)"
    by (simp add: base62_decode_def)
  with bytes_of_nat_of_bytes [of bs] assms show ?thesis
    by simp
qed

lemma byte20_copy_Rep [simp]: "byte20_copy a (Rep_byte20 k) = k"
  by (simp add: byte20_copy_def go_copy_same_length Rep_byte20_inverse)

lemma ref_FromBytes_Rep: "ref_FromBytes (Rep_byte20 k) = (k, None)"
  by (simp add: ref_FromBytes_def)

lemma ref_Parse_encode:
  "ref_Parse (string_of_bytes (base62_encode (Rep_byte20 k))) = (k, None)"
  by (simp add: ref_Parse_def base62_decode_encode ref_FromBytes_Rep)

lemma ref_Append_eq: "ksuid_Append ref_ksuid k b = b @ base62_encode (Rep_byte20 k)"
  by (simp add: ref_Append_def)

text \<open>
  With the reference instance every \<open>ID\<close> is read back from its \<open>String()\<close> and from its
  \<open>Bytes()\<close> form, so every \<open>ID\<close> minted is, and the two forms always differ: the first has
  30 bytes, the second 23.
\<close>

lemma ref_roundtrip:
  "Parse ref_ksuid (ID_String ref_ksuid i) = (i, None)"
  "FromBytes ref_ksuid (ID_Bytes i) = (i, None)"
proof -
  have app: "ksuid_Append ref_ksuid (ksuid i) (Rep_byte3 (ns i))
      = Rep_byte3 (ns i) @ base62_encode (Rep_byte20 (ksuid i))"
    by (rule ref_Append_eq)
  have len: "length (base62_encode (Rep_byte20 (ksuid i))) = 27"
    by simp
  have dec: "ksuid_Parse ref_ksuid (string_of_bytes (base62_encode (Rep_byte20 (ksuid i))))
      = (ksuid i, None)"
    by (simp add: ref_Parse_encode)
  have bin: "ksuid_FromBytes ref_ksuid (Rep_byte20 (ksuid i)) = (ksuid i, None)"
    by (simp add: ref_FromBytes_Rep)
  show "Parse ref_ksuid (ID_String ref_ksuid i) = (i, None)"
    by (rule codec_roundtrip(1) [OF app len dec bin])
  show "FromBytes ref_ksuid (ID_Bytes i) = (i, None)"
    by (rule codec_roundtrip(2) [OF app len dec bin])
qed

lemma ref_Bytes_neq_Append: "ID_Bytes i \<noteq> ID_Append ref_ksuid i []"
proof
  assume "ID_Bytes i = ID_Append ref_ksuid i []"
  then have "length (ID_Bytes i) = length (ID_Append ref_ksuid i [])"
    by simp
  then show False
    by (simp add: ID_Bytes_eq ID_Append_def ref_Append_def)
qed

section \<open>Claims about Namespace\<close>

text \<open>
  C9. \<open>NewNamespace v\<close> succeeds exactly when \<open>v\<close> is 3 bytes long; the namespace it
  then returns has \<open>Bytes()\<close> equal to the bytes of \<open>v\<close> and \<open>String()\<close> equal to \<open>v\<close>.
  For every other length it returns the one error value \<open>errNamespaceSize\<close>.
\<close>

theorem NewNamespace_spec:
  fixes v :: string
  defines "r \<equiv> NewNamespace v"
  shows "(snd r = None \<longleftrightarrow> length v = 3)
    \<and> (length v = 3 \<longrightarrow>
          Namespace_Bytes (fst r) = bytes_of_string v \<and> Namespace_String (fst r) = v)
    \<and> (length v \<noteq> 3 \<longrightarrow> snd r = Some errNamespaceSize)"
  unfolding r_def
  by (cases "length v = 3")
    (simp_all add: NewNamespace_ok NewNamespace_bad Namespace_String_Rep go_copy_same_length)

theorem NewNamespace_spec_witness:
  "snd (NewNamespace ''bla'') = None
   \<and> Namespace_Bytes (fst (NewNamespace ''bla'')) = [0x62, 0x6C, 0x61]
   \<and> Namespace_String (fst (NewNamespace ''bla'')) = ''bla''
   \<and> snd (NewNamespace ''too-long'') = Some errNamespaceSize"
  using NewNamespace_spec [of "''bla''"] NewNamespace_spec [of "''too-long''"]
  by (simp add: bytes_of_string_def)

text \<open>
  C8. \<open>Namespace.Equal\<close> compares bytes over arguments of several types: it is true
  exactly when the argument is a \<open>Namespace\<close>, a \<open>[3]byte\<close>, a \<open>[]byte\<close> or a \<open>string\<close>
  whose bytes are the 3 tag bytes of the receiver. For an argument of another type, and
  for a byte slice or a string of another length, it is false. It is a total function:
  it never fails.
\<close>

theorem Namespace_Equal_spec:
  "(Namespace_Equal n (V_Namespace m) \<longleftrightarrow> Namespace_Bytes m = Namespace_Bytes n)
   \<and> (Namespace_Equal n (V_byte3 a) \<longleftrightarrow> Rep_byte3 a = Namespace_Bytes n)
   \<and> (Namespace_Equal n (V_bytes b) \<longleftrightarrow> b = Namespace_Bytes n)
   \<and> (Namespace_Equal n (V_string s) \<longleftrightarrow> bytes_of_string s = Namespace_Bytes n)
   \<and> \<not> Namespace_Equal n (V_int k)
   \<and> \<not> Namespace_Equal n (V_other ty)
   \<and> (length b \<noteq> 3 \<longrightarrow> \<not> Namespace_Equal n (V_bytes b))
   \<and> (length s \<noteq> 3 \<longrightarrow> \<not> Namespace_Equal n (V_string s))"
  using length_Rep_byte3 [of n]
  by (auto simp: bytes_Equal_def Namespace_raw_def simp del: length_Rep_byte3)

theorem Namespace_Equal_spec_witness:
  "Namespace_Equal (byte3_copy Namespace_zero (bytes_of_string ''bla''))
     (V_Namespace (byte3_copy Namespace_zero (bytes_of_string ''bla'')))
   \<and> \<not> Namespace_Equal (byte3_copy Namespace_zero (bytes_of_string ''bla''))
     (V_Namespace (byte3_copy Namespace_zero (bytes_of_string ''eek'')))
   \<and> \<not> Namespace_Equal (byte3_copy Namespace_zero (bytes_of_string ''bla''))
     (V_byte3 (byte3_copy Namespace_zero (bytes_of_string ''abc'')))
   \<and> Namespace_Equal (byte3_copy Namespace_zero (bytes_of_string ''bla'')) (V_bytes [0x62, 0x6C, 0x61])
   \<and> Namespace_Equal (byte3_copy Namespace_zero (bytes_of_string ''bla'')) (V_string ''bla'')
   \<and> \<not> Namespace_Equal (byte3_copy Namespace_zero (bytes_of_string ''bla'')) (V_int 123)
   \<and> \<not> Namespace_Equal (byte3_copy Namespace_zero (bytes_of_string ''bla'')) (V_bytes [0x62, 0x6C])
   \<and> \<not> Namespace_Equal (byte3_copy Namespace_zero (bytes_of_string ''bla'')) (V_string ''blah'')"
  using Namespace_Equal_spec [of "byte3_copy Namespace_zero (bytes_of_string ''bla'')"
      "byte3_copy Namespace_zero (bytes_of_string ''bla'')"
      "byte3_copy Namespace_zero (bytes_of_string ''abc'')" "[0x62, 0x6C, 0x61]" "''bla''" 123]
    Namespace_Equal_spec [of "byte3_copy Namespace_zero (bytes_of_string ''bla'')"
      "byte3_copy Namespace_zero (bytes_of_string ''eek'')"
      "byte3_copy Namespace_zero (bytes_of_string ''abc'')" "[0x62, 0x6C]" "''blah''" 123]
  by (simp add: go_copy_def bytes_of_string_def)

section \<open>Claims about decoding\<close>

text \<open>
  C4. For a string whose length is neither 27 nor 30, \<open>Parse\<close> returns the one error
  value \<open>errStringSize\<close>. For a string of length 27 or 30 it never returns
  \<open>errStringSize\<close>: it fails exactly when \<open>ksuid.Parse\<close> fails on the 27 characters
  that hold the KSUID, and then with that error.
\<close>

theorem Parse_length_spec:
  "(length s \<noteq> 27 \<and> length s \<noteq> 30 \<longrightarrow> Parse L s = (ID_zero, Some errStringSize))
   \<and> (length s = 27 \<or> length s = 30 \<longrightarrow> snd (Parse L s) \<noteq> Some errStringSize)
   \<and> (length s = 27 \<longrightarrow> snd (Parse L s) = map_option ksuid_error (snd (ksuid_Parse L s)))
   \<and> (length s = 30 \<longrightarrow>
         snd (Parse L s) = map_option ksuid_error (snd (ksuid_Parse L (drop 3 s))))"
  by (auto simp: Parse_bad_length Parse_27 Parse_30 split: prod.splits option.splits)

theorem Parse_length_spec_witness:
  "Parse ref_ksuid ''blah'' = (ID_zero, Some errStringSize)
   \<and> snd (Parse ref_ksuid sample_text) = None
   \<and> snd (Parse ref_ksuid (''bla'' @ sample_text)) = None
   \<and> snd (Parse ref_ksuid ''aWgEPTl1tmebfsQzFP4bxwgy80W'') = Some (ksuid_error errStrValue)
   \<and> snd (Parse ref_ksuid ''blaaWgEPTl1tmebfsQzFP4bxwgy80W'') = Some (ksuid_error errStrValue)"
  using Parse_length_spec [of "''blah''" ref_ksuid]
    Parse_length_spec [of sample_text ref_ksuid]
    Parse_length_spec [of "''bla'' @ sample_text" ref_ksuid]
    Parse_length_spec [of "''aWgEPTl1tmebfsQzFP4bxwgy80W''" ref_ksuid]
    Parse_length_spec [of "''blaaWgEPTl1tmebfsQzFP4bxwgy80W''" ref_ksuid]
  by (simp add: ref_Parse_sample ref_Parse_over_max)

text \<open>
  C5. For a 20-byte buffer that \<open>ksuid.FromBytes\<close> accepts, \<open>FromBytes\<close> succeeds and
  the namespace of its result is \<open>Unknown\<close>; for a 27-character string that
  \<open>ksuid.Parse\<close> accepts, \<open>Parse\<close> succeeds and the namespace of its result is
  \<open>Unknown\<close>.
\<close>

theorem bare_forms_Unknown:
  "(length b = 20 \<and> ksuid_FromBytes L b = (v, None) \<longrightarrow>
      FromBytes L b = (\<lparr>ns = Unknown, ksuid = v\<rparr>, None)
      \<and> Namespace_Equal (ns (fst (FromBytes L b))) (V_Namespace Unknown))
   \<and> (length s = 27 \<and> ksuid_Parse L s = (v', None) \<longrightarrow>
      Parse L s = (\<lparr>ns = Unknown, ksuid = v'\<rparr>, None)
      \<and> Namespace_Equal (ns (fst (Parse L s))) (V_Namespace Unknown))"
  by (simp add: FromBytes_other Parse_27 bytes_Equal_def)

theorem bare_forms_Unknown_witness:
  "FromBytes ref_ksuid sample_raw = (\<lparr>ns = Unknown, ksuid = sample_KSUID\<rparr>, None)
   \<and> Parse ref_ksuid sample_text = (\<lparr>ns = Unknown, ksuid = sample_KSUID\<rparr>, None)"
  using bare_forms_Unknown [of sample_raw ref_ksuid sample_KSUID sample_text sample_KSUID]
  by (simp add: ref_FromBytes_sample ref_Parse_sample)

text \<open>
  C6. Where \<open>FromBytes\<close> or \<open>Parse\<close> returns an error, the \<open>ID\<close> returned with it is
  the zero value; where \<open>UnmarshalJSON\<close> returns an error, the receiver has the value
  it had before the call.
\<close>

theorem decode_error_atomic:
  "(snd (FromBytes L b) \<noteq> None \<longrightarrow> fst (FromBytes L b) = ID_zero)
   \<and> (snd (Parse L s) \<noteq> None \<longrightarrow> fst (Parse L s) = ID_zero)
   \<and> (snd (ID_UnmarshalJSON J L i b') \<noteq> None \<longrightarrow> fst (ID_UnmarshalJSON J L i b') = i)"
proof (intro conjI impI)
  assume "snd (FromBytes L b) \<noteq> None"
  then show "fst (FromBytes L b) = ID_zero"
    by (auto simp: FromBytes_def split: if_splits prod.splits option.splits)
next
  assume "snd (Parse L s) \<noteq> None"
  then show "fst (Parse L s) = ID_zero"
    by (auto simp: Parse_def split: if_splits prod.splits option.splits)
next
  assume "snd (ID_UnmarshalJSON J L i b') \<noteq> None"
  then show "fst (ID_UnmarshalJSON J L i b') = i"
    by (auto simp: ID_UnmarshalJSON_def split: if_splits prod.splits option.splits)
qed

theorem decode_error_atomic_witness:
  "FromBytes ref_ksuid [1, 2, 3] = (ID_zero, Some (ksuid_error errSize))
   \<and> Parse ref_ksuid ''blah'' = (ID_zero, Some errStringSize)
   \<and> ID_UnmarshalJSON ref_json_Unmarshal ref_ksuid sample_ID
        (0x22 # bytes_of_string ''bad-json'') = (sample_ID, Some (json_error json_SyntaxError))
   \<and> ID_UnmarshalJSON ref_json_Unmarshal ref_ksuid sample_ID
        (0x22 # bytes_of_string ''invalid-ksuid'' @ [0x22]) = (sample_ID, Some errStringSize)"
proof -
  have f: "FromBytes ref_ksuid [1, 2, 3] = (ID_zero, Some (ksuid_error errSize))"
    by (simp add: FromBytes_other ref_FromBytes_def)
  have p: "Parse ref_ksuid ''blah'' = (ID_zero, Some errStringSize)"
    by (simp add: Parse_bad_length)
  have u1: "snd (ID_UnmarshalJSON ref_json_Unmarshal ref_ksuid sample_ID
        (0x22 # bytes_of_string ''bad-json'')) = Some (json_error json_SyntaxError)"
    by (simp add: ID_UnmarshalJSON_def ref_json_unterminated)
  have u2: "snd (ID_UnmarshalJSON ref_json_Unmarshal ref_ksuid sample_ID
        (0x22 # bytes_of_string ''invalid-ksuid'' @ [0x22])) = Some errStringSize"
    by (simp add: ID_UnmarshalJSON_def ref_json_literal Parse_bad_length)
  from decode_error_atomic [of ref_ksuid "[1, 2, 3]" "''blah''" ref_json_Unmarshal sample_ID
      "0x22 # bytes_of_string ''bad-json''"]
    decode_error_atomic [of ref_ksuid "[1, 2, 3]" "''blah''" ref_json_Unmarshal sample_ID
      "0x22 # bytes_of_string ''invalid-ksuid'' @ [0x22]"]
    f p u1 u2
  show ?thesis
    by (simp add: prod_eq_iff)
qed

section \<open>Claims about UnmarshalJSON\<close>

text \<open>
  C3, as the code has it. \<open>json.Unmarshal\<close> of the token \<open>null\<close> into the local string
  is no error and leaves the string empty; \<open>UnmarshalJSON\<close> then takes the branch of the
  empty string: it succeeds and sets the receiver to \<open>Nil\<close>, the \<open>Unknown\<close> namespace
  \<open>unk\<close> with the all-zero KSUID, which is not the zero value of \<open>ID\<close>.
\<close>

theorem UnmarshalJSON_null:
  assumes "J (bytes_of_string ''null'') [] = (None, [])"
  shows "ID_UnmarshalJSON J L i (bytes_of_string ''null'') = (Nil_ID, None)
    \<and> Namespace_Bytes (ns Nil_ID) = bytes_of_string ''unk''
    \<and> Rep_byte20 (ksuid Nil_ID) = replicate 20 0
    \<and> Nil_ID \<noteq> ID_zero"
  using assms by (simp add: UnmarshalJSON_empty Nil_ID_neq_zero bytes_of_string_def)

theorem UnmarshalJSON_null_counterexample:
  "fst (ID_UnmarshalJSON ref_json_Unmarshal ref_ksuid ID_zero (bytes_of_string ''null''))
   \<noteq> ID_zero"
  by (simp add: ID_UnmarshalJSON_def ref_json_null Nil_ID_neq_zero)

theorem UnmarshalJSON_null_witness:
  "ref_json_Unmarshal (bytes_of_string ''null'') [] = (None, [])
   \<and> ID_UnmarshalJSON ref_json_Unmarshal ref_ksuid sample_ID (bytes_of_string ''null'')
       = (Nil_ID, None)
   \<and> Namespace_Bytes (ns Nil_ID) = [0x75, 0x6E, 0x6B]"
proof -
  have "Namespace_Bytes (ns Nil_ID) = [0x75, 0x6E, 0x6B]"
    by simp
  with UnmarshalJSON_null [of ref_json_Unmarshal ref_ksuid sample_ID] show ?thesis
    by (simp add: ref_json_null)
qed

text \<open>
  C7. Unmarshaling the JSON string literal of the empty string (the two bytes \<open>0x22\<close>,
  which \<open>json.Unmarshal\<close> decodes to the empty string) succeeds and sets the receiver to
  \<open>Nil\<close>: the \<open>Unknown\<close> namespace with the all-zero KSUID.
\<close>

theorem UnmarshalJSON_empty_string:
  assumes "J [0x22, 0x22] [] = (None, [])"
  shows "ID_UnmarshalJSON J L i [0x22, 0x22] = (Nil_ID, None)
    \<and> Nil_ID = \<lparr>ns = Unknown, ksuid = ksuid_Nil\<rparr>
    \<and> Rep_byte20 ksuid_Nil = replicate 20 0"
  using assms by (simp add: UnmarshalJSON_empty Nil_ID_def ksuid_Nil_def)

theorem UnmarshalJSON_empty_string_witness:
  "ref_json_Unmarshal [0x22, 0x22] [] = (None, [])
   \<and> ID_UnmarshalJSON ref_json_Unmarshal ref_ksuid sample_ID [0x22, 0x22] = (Nil_ID, None)"
  using UnmarshalJSON_empty_string [of ref_json_Unmarshal ref_ksuid sample_ID]
  by (simp add: ref_json_empty)

section \<open>Claims about the two encodings\<close>

text \<open>
  C2, as the code has it. \<open>Bytes()\<close> is the 23-byte binary form: the 3 namespace bytes,
  then the 20 raw bytes of the KSUID. \<open>Append\<close> on an empty buffer is the byte content
  of \<open>String()\<close>: the namespace bytes, then what \<open>ksuid.Append\<close> adds, the text form of
  the KSUID. The two differ for every \<open>ID\<close> whose \<open>String()\<close> form \<open>Parse\<close> accepts.
\<close>

theorem Bytes_Append_differ:
  "ID_Bytes i = Namespace_Bytes (ns i) @ Rep_byte20 (ksuid i)
   \<and> length (ID_Bytes i) = 23
   \<and> ID_Append L i [] = ksuid_Append L (ksuid i) (Namespace_Bytes (ns i))
   \<and> ID_Append L i [] = bytes_of_string (ID_String L i)
   \<and> (snd (Parse L (ID_String L i)) = None \<longrightarrow> ID_Bytes i \<noteq> ID_Append L i [])"
proof (intro conjI impI)
  assume ok: "snd (Parse L (ID_String L i)) = None"
  have "length (ID_Append L i []) = length (ID_String L i)"
    by (simp add: ID_String_def)
  with Parse_ok_length [OF ok] have "length (ID_Append L i []) \<noteq> 23"
    by auto
  then show "ID_Bytes i \<noteq> ID_Append L i []"
    using length_ID_Bytes [of i] by metis
qed (simp_all add: ID_Bytes_eq ID_Append_Nil ID_String_def)

theorem Bytes_Append_counterexample:
  "ID_Bytes sample_ID \<noteq> ID_Append ref_ksuid sample_ID []"
proof
  assume "ID_Bytes sample_ID = ID_Append ref_ksuid sample_ID []"
  then have "length (ID_Bytes sample_ID) = length (ID_Append ref_ksuid sample_ID [])"
    by simp
  then show False
    by (simp add: ID_Bytes_eq ID_Append_def ref_Append_sample)
qed

theorem Bytes_Append_differ_witness:
  "snd (Parse ref_ksuid (ID_String ref_ksuid sample_ID)) = None
   \<and> ID_Bytes sample_ID = [0x62, 0x6C, 0x61] @ sample_raw
   \<and> ID_Append ref_ksuid sample_ID [] = [0x62, 0x6C, 0x61] @ bytes_of_string sample_text
   \<and> ID_Bytes sample_ID \<noteq> ID_Append ref_ksuid sample_ID []"
proof -
  have "Parse ref_ksuid (ID_String ref_ksuid sample_ID) = (sample_ID, None)"
    unfolding ID_String_sample by (rule Parse_sample_ID)
  then have ok: "snd (Parse ref_ksuid (ID_String ref_ksuid sample_ID)) = None"
    by simp
  with Bytes_Append_differ [of sample_ID ref_ksuid]
  have ne: "ID_Bytes sample_ID \<noteq> ID_Append ref_ksuid sample_ID []"
    by blast
  have b: "ID_Bytes sample_ID = [0x62, 0x6C, 0x61] @ sample_raw"
    by (simp add: ID_Bytes_eq)
  have a: "ID_Append ref_ksuid sample_ID [] = [0x62, 0x6C, 0x61] @ bytes_of_string sample_text"
    by (simp add: ID_Append_def ref_Append_sample)
  from ok b a ne show ?thesis
    by (intro conjI)
qed

text \<open>
  C1. Let \<open>NewRandomWithTime\<close> succeed with the identifier \<open>i\<close>, and let package
  \<open>ksuid\<close> keep its codec contract at the KSUID minted: \<open>Append\<close> adds 27 bytes of text
  to the buffer, \<open>ksuid.Parse\<close> of that text and \<open>ksuid.FromBytes\<close> of the 20 raw bytes
  both return the KSUID. Then \<open>Parse (i.String())\<close> and \<open>FromBytes (i.Bytes())\<close> both
  return \<open>i\<close> without error: the same namespace and the same KSUID, equal under
  \<open>ID.Equal\<close>.
\<close>

theorem mint_roundtrip:
  assumes mint: "NewRandomWithTime L n t r = ((i, None), r')"
    and app: "ksuid_Append L (ksuid i) (Namespace_Bytes n) = Namespace_Bytes n @ enc"
    and len: "length enc = 27"
    and dec: "ksuid_Parse L (string_of_bytes enc) = (ksuid i, None)"
    and bin: "ksuid_FromBytes L (Rep_byte20 (ksuid i)) = (ksuid i, None)"
  shows "Parse L (ID_String L i) = (i, None)
    \<and> FromBytes L (ID_Bytes i) = (i, None)
    \<and> ID_Equal (fst (Parse L (ID_String L i))) i
    \<and> ID_Equal (fst (FromBytes L (ID_Bytes i))) i"
proof -
  from mint have "ns i = n"
    by (rule NewRandomWithTime_ns)
  with app have "ksuid_Append L (ksuid i) (Rep_byte3 (ns i)) = Rep_byte3 (ns i) @ enc"
    by simp
  from codec_roundtrip [OF this len dec bin] ID_Equal_refl [of i] show ?thesis
    by simp
qed

theorem mint_roundtrip_witness:
  "NewRandomWithTime ref_ksuid bla 1700000000
      [1, 2, 3, 4, 5, 6, 7, 8, 9, 10, 11, 12, 13, 14, 15, 16, 17]
     = ((sample_ID, None), [17])
   \<and> ID_String ref_ksuid sample_ID = ''bla'' @ sample_text
   \<and> Parse ref_ksuid (ID_String ref_ksuid sample_ID) = (sample_ID, None)
   \<and> ID_Bytes sample_ID = [0x62, 0x6C, 0x61] @ sample_raw
   \<and> FromBytes ref_ksuid (ID_Bytes sample_ID) = (sample_ID, None)"
proof -
  have mint: "NewRandomWithTime ref_ksuid bla 1700000000
      [1, 2, 3, 4, 5, 6, 7, 8, 9, 10, 11, 12, 13, 14, 15, 16, 17]
     = ((sample_ID, None), [17])"
    by (simp add: NewRandomWithTime_def ref_mint sample_ID_def ID_zero_def)
  have app: "ksuid_Append ref_ksuid (ksuid sample_ID) (Namespace_Bytes bla)
     = Namespace_Bytes bla @ bytes_of_string sample_text"
    by (simp add: ref_Append_sample)
  have len: "length (bytes_of_string sample_text) = 27"
    by simp
  have dec: "ksuid_Parse ref_ksuid (string_of_bytes (bytes_of_string sample_text))
     = (ksuid sample_ID, None)"
    by (simp add: ref_Parse_sample)
  have bin: "ksuid_FromBytes ref_ksuid (Rep_byte20 (ksuid sample_ID)) = (ksuid sample_ID, None)"
    by (simp add: ref_FromBytes_sample)
  from mint_roundtrip [OF mint app len dec bin] mint show ?thesis
    by (simp add: ID_String_sample ID_Bytes_eq)
qed

section \<open>Claims about the Unknown namespace\<close>

text \<open>
  C10. The tag bytes of \<open>Unknown\<close> are the three ASCII characters \<open>unk\<close>, and \<open>Nil\<close> is
  this namespace with the all-zero KSUID. So an \<open>ID\<close> decoded from a bare 20-byte buffer
  or a bare 27-character string has a \<open>String()\<close> form that starts with \<open>unk\<close>, given
  that \<open>ksuid.Append\<close> keeps the bytes already in the buffer.
\<close>

theorem Unknown_unk:
  "Namespace_Bytes Unknown = bytes_of_string ''unk''
   \<and> Namespace_String Unknown = ''unk''
   \<and> Nil_ID = \<lparr>ns = Unknown, ksuid = ksuid_Nil\<rparr>
   \<and> Rep_byte20 ksuid_Nil = replicate 20 0
   \<and> (length b = 20 \<and> FromBytes L b = (i, None)
        \<and> prefix (Namespace_Bytes (ns i)) (ksuid_Append L (ksuid i) (Namespace_Bytes (ns i)))
      \<longrightarrow> take 3 (ID_String L i) = ''unk'')
   \<and> (length s = 27 \<and> Parse L s = (i', None)
        \<and> prefix (Namespace_Bytes (ns i')) (ksuid_Append L (ksuid i') (Namespace_Bytes (ns i')))
      \<longrightarrow> take 3 (ID_String L i') = ''unk'')"
proof (intro conjI impI)
  show "Namespace_Bytes Unknown = bytes_of_string ''unk''"
    by (simp add: bytes_of_string_def)
  show "Namespace_String Unknown = ''unk''"
    by (simp add: Namespace_String_Rep string_of_bytes_unk)
  show "Nil_ID = \<lparr>ns = Unknown, ksuid = ksuid_Nil\<rparr>"
    by (simp add: Nil_ID_def)
  show "Rep_byte20 ksuid_Nil = replicate 20 0"
    by (simp add: ksuid_Nil_def)
next
  assume a: "length b = 20 \<and> FromBytes L b = (i, None)
    \<and> prefix (Namespace_Bytes (ns i)) (ksuid_Append L (ksuid i) (Namespace_Bytes (ns i)))"
  then have "ns i = Unknown"
    by (auto simp: FromBytes_other split: prod.splits option.splits)
  with a show "take 3 (ID_String L i) = ''unk''"
    by (simp add: ID_String_Unknown)
next
  assume a: "length s = 27 \<and> Parse L s = (i', None)
    \<and> prefix (Namespace_Bytes (ns i')) (ksuid_Append L (ksuid i') (Namespace_Bytes (ns i')))"
  then have "ns i' = Unknown"
    by (auto simp: Parse_27 split: prod.splits option.splits)
  with a show "take 3 (ID_String L i') = ''unk''"
    by (simp add: ID_String_Unknown)
qed

theorem Unknown_unk_witness:
  "FromBytes ref_ksuid sample_raw = (\<lparr>ns = Unknown, ksuid = sample_KSUID\<rparr>, None)
   \<and> Parse ref_ksuid sample_text = (\<lparr>ns = Unknown, ksuid = sample_KSUID\<rparr>, None)
   \<and> ID_String ref_ksuid \<lparr>ns = Unknown, ksuid = sample_KSUID\<rparr> = ''unk'' @ sample_text
   \<and> take 3 (ID_String ref_ksuid \<lparr>ns = Unknown, ksuid = sample_KSUID\<rparr>) = ''unk''"
proof -
  let ?i = "\<lparr>ns = Unknown, ksuid = sample_KSUID\<rparr>"
  have f: "FromBytes ref_ksuid sample_raw = (?i, None)"
    by (simp add: FromBytes_other ref_FromBytes_sample)
  have p: "Parse ref_ksuid sample_text = (?i, None)"
    by (simp add: Parse_27 ref_Parse_sample)
  have a: "prefix (Namespace_Bytes (ns ?i)) (ksuid_Append ref_ksuid (ksuid ?i) (Namespace_Bytes (ns ?i)))"
    by (simp add: ref_Append_sample)
  have s: "ID_String ref_ksuid ?i = ''unk'' @ sample_text"
    by (simp add: ID_String_def ID_Append_def ref_Append_sample string_of_bytes_eval)
  from Unknown_unk [of sample_raw ref_ksuid ?i sample_text ?i] f p a s
  show ?thesis by simp
qed

end
